theory Spec2Isabelle
  imports Main
begin

section \<open>Python strings and values\<close>

text \<open>
  Strings are character lists. Three characters that cannot be written inside a string
  literal comfortably get a name: the double quote, the newline and the backslash.
\<close>

definition dq :: char where
  "dq = CHR 0x22"

definition nl :: char where
  "nl = CHR 0x0A"

definition bslash :: char where
  "bslash = CHR 0x5C"

text \<open>\<^verbatim>\<open>sep.join(xs)\<close> of Python.\<close>

fun join_str :: "string \<Rightarrow> string list \<Rightarrow> string" where
  "join_str sep [] = []"
| "join_str sep [x] = x"
| "join_str sep (x # y # ys) = x @ sep @ join_str sep (y # ys)"

text \<open>\<^verbatim>\<open>str(n)\<close> for an integer: decimal digits, with a minus sign when negative.\<close>

definition digit_char :: "nat \<Rightarrow> char" where
  "digit_char n = ''0123456789'' ! (n mod 10)"

fun digits :: "nat \<Rightarrow> string" where
  "digits n = (if n < 10 then [digit_char n] else digits (n div 10) @ [digit_char n])"

definition str_int :: "int \<Rightarrow> string" where
  "str_int i = (if i < 0 then CHR ''-'' # digits (nat (- i)) else digits (nat i))"

text \<open>
  A raised exception is a value: whether it is an instance of \<^verbatim>\<open>Exception\<close> (and not
  only of \<^verbatim>\<open>BaseException\<close>, as \<^verbatim>\<open>SystemExit\<close> and \<^verbatim>\<open>KeyboardInterrupt\<close> are), its
  class name, what \<^verbatim>\<open>str(err)\<close> gives, and the exception it was raised \<^verbatim>\<open>from\<close>.
\<close>

datatype exc =
  Exc (is_Exception: bool) (exc_class: string) (exc_str: string) (exc_cause: "exc option")

text \<open>\<^verbatim>\<open>d.get(k, default)\<close> on a dictionary kept as an association list.\<close>

definition dict_get :: "('k \<times> 'v) list \<Rightarrow> 'k \<Rightarrow> 'v \<Rightarrow> 'v" where
  "dict_get d k dflt = (case map_of d k of None \<Rightarrow> dflt | Some v \<Rightarrow> v)"

section \<open>Calendar dates and the command line\<close>

text \<open>
  A calendar date of the proleptic Gregorian calendar, as \<^verbatim>\<open>datetime.date\<close> has it.
  Only the date part of \<^verbatim>\<open>datetime.now()\<close> decides the year that the program reads.
\<close>

datatype date = Date (date_year: int) (date_month: nat) (date_day: nat)

definition is_leap :: "int \<Rightarrow> bool" where
  "is_leap y = (y mod 4 = 0 \<and> (y mod 100 \<noteq> 0 \<or> y mod 400 = 0))"

definition days_in_month :: "int \<Rightarrow> nat \<Rightarrow> nat" where
  "days_in_month y m =
     (if m = 2 then (if is_leap y then 29 else 28)
      else if m = 4 \<or> m = 6 \<or> m = 9 \<or> m = 11 then 30 else 31)"

definition valid_date :: "date \<Rightarrow> bool" where
  "valid_date d =
     (1 \<le> date_month d \<and> date_month d \<le> 12 \<and>
      1 \<le> date_day d \<and> date_day d \<le> days_in_month (date_year d) (date_month d))"

text \<open>The day before a date, and the date \<open>n\<close> days before a date.\<close>

fun prev_day :: "date \<Rightarrow> date" where
  "prev_day (Date y m d) =
     (if 1 < d then Date y m (d - 1)
      else if 1 < m then Date y (m - 1) (days_in_month y (m - 1))
      else Date (y - 1) 12 31)"

fun days_back :: "nat \<Rightarrow> date \<Rightarrow> date" where
  "days_back 0 d = d"
| "days_back (Suc n) d = days_back n (prev_day d)"

text \<open>
  \<^verbatim>\<open>now - timedelta(days=n)\<close>: Python raises \<^verbatim>\<open>OverflowError\<close> when the result
  falls before year 1.
\<close>

definition minus_days :: "date \<Rightarrow> nat \<Rightarrow> exc + date" where
  "minus_days d n =
     (let r = days_back n d
      in if date_year r < 1 then Inl (Exc True ''OverflowError'' ''date value out of range'' None)
         else Inr r)"

text \<open>The position of a date in its year (1 for the first of January), used in proofs.\<close>

definition days_before_month :: "int \<Rightarrow> nat \<Rightarrow> nat" where
  "days_before_month y m = sum_list (map (days_in_month y) [1..<m])"

definition day_of_year :: "date \<Rightarrow> nat" where
  "day_of_year d = days_before_month (date_year d) (date_month d) + date_day d"

definition year_length :: "int \<Rightarrow> nat" where
  "year_length y = (if is_leap y then 366 else 365)"

text \<open>
  \<^verbatim>\<open>parse_args()\<close> of \<^verbatim>\<open>utils/__init__.py\<close>. The inputs are the clock and, for each
  of the two options, the value given on the command line, if any; for
  \<^verbatim>\<open>--start_year\<close> it is the value after \<^verbatim>\<open>type=int\<close> has converted it. A value
  outside an option's \<^verbatim>\<open>choices\<close> makes argparse print the usage message and exit with
  status 2, which is a \<^verbatim>\<open>SystemExit\<close>. The default of \<^verbatim>\<open>--start_year\<close> is computed
  when the option is declared, whether the option is given or not, and argparse does not
  check a default that is not a string against \<^verbatim>\<open>choices\<close>.
\<close>

record args =
  arg_environment :: string
  arg_start_year :: int
  arg_sf_prefix :: string

definition argparse_exit :: exc where
  "argparse_exit = Exc False ''SystemExit'' ''2'' None"

definition parse_args :: "date \<Rightarrow> string option \<Rightarrow> int option \<Rightarrow> exc + args" where
  "parse_args now environment_opt start_year_opt =
     (case minus_days now 365 of
        Inl e \<Rightarrow> Inl e
      | Inr before \<Rightarrow>
          let choices = [2019 .. date_year now];
              default = date_year before
          in if (case environment_opt of None \<Rightarrow> False | Some e \<Rightarrow> e \<notin> set [''prod'', ''uat''])
             then Inl argparse_exit
             else if (case start_year_opt of None \<Rightarrow> False | Some y \<Rightarrow> y \<notin> set choices)
             then Inl argparse_exit
             else
               let environment = (case environment_opt of None \<Rightarrow> ''uat'' | Some e \<Rightarrow> e)
               in Inr \<lparr>arg_environment = environment,
                       arg_start_year = (case start_year_opt of None \<Rightarrow> default | Some y \<Rightarrow> y),
                       arg_sf_prefix = (if environment = ''prod'' then '''' else ''uat'' @ [bslash])\<rparr>)"

section \<open>Tables\<close>

text \<open>
  An in-memory table (a pandas \<^verbatim>\<open>DataFrame\<close>) is the list of its columns, in column
  order; a column has a label, a dtype (as \<^verbatim>\<open>str(dtype)\<close> prints it) and its cells, one
  per row. A cell is missing (\<^verbatim>\<open>None\<close> or \<^verbatim>\<open>NaN\<close>), an integer, a string or a
  calendar date.
\<close>

datatype cell = NoneV | NaN | IntV int | StrV string | DateV date

record column =
  col_label :: string
  col_dtype :: string
  col_cells :: "cell list"

type_synonym dataframe = "column list"

text \<open>\<^verbatim>\<open>df.columns\<close> and \<^verbatim>\<open>df.dtypes.items()\<close>.\<close>

definition columns :: "dataframe \<Rightarrow> string list" where
  "columns df = map col_label df"

definition dtypes :: "dataframe \<Rightarrow> (string \<times> string) list" where
  "dtypes df = map (\<lambda>c. (col_label c, col_dtype c)) df"

section \<open>The warehouse connector: statement generation\<close>

text \<open>
  \<^verbatim>\<open>SnowflakeConnector.snowflake_create_table(table_name, df)\<close>.
  The function reads \<^verbatim>\<open>df.dtypes.items()\<close>: the pairs of a column label and its
  dtype, in column order. \<^verbatim>\<open>dtype_mapping.get(str(dtype), "TEXT")\<close> is a dictionary
  lookup with a default.
\<close>

definition dtype_mapping :: "(string \<times> string) list" where
  "dtype_mapping =
     [(''object'', ''TEXT''),
      (''int64'', ''NUMBER''),
      (''float64'', ''FLOAT''),
      (''bool'', ''BOOLEAN''),
      (''datetime64[ns]'', ''TIMESTAMP_NTZ'')]"

definition column_sql :: "string \<times> string \<Rightarrow> string" where
  "column_sql cd = dq # fst cd @ dq # '' '' @ dict_get dtype_mapping (snd cd) ''TEXT''"

definition snowflake_create_table :: "string \<Rightarrow> dataframe \<Rightarrow> string" where
  "snowflake_create_table table_name df =
     (let cols = map column_sql (dtypes df);
          columns_sql = join_str '', '' cols
      in ''CREATE TABLE IF NOT EXISTS '' @ table_name @ '' ('' @ columns_sql @ '');'')"

text \<open>
  \<^verbatim>\<open>textwrap.dedent(text)\<close> of the Python library: the text is cut at its newlines; a
  line made of spaces and tabs only becomes the empty line; the margin is the longest
  string of spaces and tabs that starts every other line, and it is removed from each of
  them.
\<close>

definition tab :: char where
  "tab = CHR 0x09"

fun split_nl :: "string \<Rightarrow> string list" where
  "split_nl [] = [[]]"
| "split_nl (c # cs) =
     (if c = nl then [] # split_nl cs
      else (case split_nl cs of [] \<Rightarrow> [[c]] | l # ls \<Rightarrow> (c # l) # ls))"

definition is_blank :: "string \<Rightarrow> bool" where
  "is_blank l = list_all (\<lambda>c. c = CHR '' '' \<or> c = tab) l"

definition indent :: "string \<Rightarrow> string" where
  "indent l = takeWhile (\<lambda>c. c = CHR '' '' \<or> c = tab) l"

fun common_prefix :: "string \<Rightarrow> string \<Rightarrow> string" where
  "common_prefix (x # xs) (y # ys) = (if x = y then x # common_prefix xs ys else [])"
| "common_prefix _ _ = []"

definition margin :: "string list \<Rightarrow> string" where
  "margin lines =
     (case filter (\<lambda>l. \<not> is_blank l) lines of
        [] \<Rightarrow> []
      | l # ls \<Rightarrow> foldl common_prefix (indent l) (map indent ls))"

definition dedent :: "string \<Rightarrow> string" where
  "dedent text =
     (let lines = split_nl text; m = margin lines
      in join_str [nl] (map (\<lambda>l. if is_blank l then [] else drop (length m) l) lines))"

text \<open>
  The MERGE statement of \<^verbatim>\<open>load_dataframe_to_snowflake\<close>, from the table name, the
  unique keys of the configuration and \<^verbatim>\<open>df.columns\<close>. The template is the f-string of
  the source, line by line with its indentation: twenty spaces before each of the six
  lines, sixteen before the closing quotes.
\<close>

definition merge_condition :: "string list \<Rightarrow> string" where
  "merge_condition unique_keys =
     join_str '' AND ''
       (map (\<lambda>col. ''target.'' @ [dq] @ col @ [dq] @ '' = source.'' @ [dq] @ col @ [dq])
          unique_keys)"

definition columns_list :: "string list \<Rightarrow> string" where
  "columns_list cols = join_str '', '' (map (\<lambda>col. [dq] @ col @ [dq]) cols)"

definition source_columns_list :: "string list \<Rightarrow> string" where
  "source_columns_list cols =
     join_str '', '' (map (\<lambda>col. ''source.'' @ [dq] @ col @ [dq]) cols)"

definition merge_template :: "string \<Rightarrow> string \<Rightarrow> string list \<Rightarrow> string list \<Rightarrow> string" where
  "merge_template table_name staging_table unique_keys cols =
     [nl] @
     ''                    MERGE INTO '' @ table_name @ '' AS target'' @ [nl] @
     ''                    USING '' @ staging_table @ '' AS source'' @ [nl] @
     ''                    ON '' @ merge_condition unique_keys @ [nl] @
     ''                    WHEN NOT MATCHED THEN'' @ [nl] @
     ''                    INSERT ('' @ columns_list cols @ '')'' @ [nl] @
     ''                    VALUES ('' @ source_columns_list cols @ '');'' @ [nl] @
     ''                ''"

definition merge_stmt :: "string \<Rightarrow> string list \<Rightarrow> string list \<Rightarrow> string" where
  "merge_stmt table_name unique_keys cols =
     (let staging_table = table_name @ ''_staging''
      in dedent (merge_template table_name staging_table unique_keys cols))"

section \<open>The warehouse connector: sessions\<close>

text \<open>
  The configuration record and the connector object. The connection parameters are a
  Python dictionary, an object that the connector does not copy: the connector keeps a
  reference to it, and the dictionaries live in a store. A dictionary is an association
  list in insertion order; a value may be \<^verbatim>\<open>None\<close>.
\<close>

record snowflake_config =
  cfg_database :: string
  cfg_schema :: string
  cfg_table :: string
  cfg_unique_keys :: "string list"

type_synonym params = "(string \<times> string option) list"

type_synonym addr = nat

type_synonym store = "addr \<Rightarrow> params"

record snowflake_connector =
  connection_params :: addr
  config :: snowflake_config

definition SnowflakeConnector_init :: "addr \<Rightarrow> snowflake_config \<Rightarrow> snowflake_connector" where
  "SnowflakeConnector_init params_ref conf = \<lparr>connection_params = params_ref, config = conf\<rparr>"

text \<open>\<^verbatim>\<open>d[k] = v\<close>: an existing key keeps its place, a new key goes to the end.\<close>

fun dict_set :: "'k \<Rightarrow> 'v \<Rightarrow> ('k \<times> 'v) list \<Rightarrow> ('k \<times> 'v) list" where
  "dict_set k v [] = [(k, v)]"
| "dict_set k v ((k', v') # d) = (if k' = k then (k, v) # d else (k', v') # dict_set k v d)"

text \<open>
  The warehouse is outside the program. What the program did to it is recorded in the
  session: the parameters of the connection, the statements passed to
  \<^verbatim>\<open>cs.execute\<close>, the calls of \<^verbatim>\<open>write_pandas\<close>, and the numbers of commits and of
  closes. How the warehouse answers is a parameter, the driver: whether connecting,
  executing a statement, committing or closing raises, and what \<^verbatim>\<open>write_pandas\<close> and
  \<^verbatim>\<open>fetch_pandas_all\<close> return or raise, each depending on the session so far.
\<close>

record session =
  sess_params :: params
  sess_executed :: "string list"
  sess_written :: "(string \<times> dataframe) list"
  sess_commits :: nat
  sess_closes :: nat

record driver =
  connect_raises :: "params \<Rightarrow> exc option"
  execute_raises :: "session \<Rightarrow> string \<Rightarrow> exc option"
  write_pandas_returns :: "session \<Rightarrow> dataframe \<Rightarrow> string \<Rightarrow> exc + (bool \<times> nat)"
  commit_raises :: "session \<Rightarrow> exc option"
  fetch_returns :: "session \<Rightarrow> exc + dataframe"
  close_raises :: "session \<Rightarrow> exc option"

definition connect :: "params \<Rightarrow> session" where
  "connect ps =
     \<lparr>sess_params = ps, sess_executed = [], sess_written = [], sess_commits = 0,
      sess_closes = 0\<rparr>"

definition execute :: "driver \<Rightarrow> string \<Rightarrow> session \<Rightarrow> exc option \<times> session" where
  "execute drv stmt s = (execute_raises drv s stmt, s\<lparr>sess_executed := sess_executed s @ [stmt]\<rparr>)"

fun execute_all :: "driver \<Rightarrow> string list \<Rightarrow> session \<Rightarrow> exc option \<times> session" where
  "execute_all drv [] s = (None, s)"
| "execute_all drv (stmt # stmts) s =
     (case execute drv stmt s of
        (Some err, s') \<Rightarrow> (Some err, s')
      | (None, s') \<Rightarrow> execute_all drv stmts s')"

definition commit :: "driver \<Rightarrow> session \<Rightarrow> exc option \<times> session" where
  "commit drv s = (commit_raises drv s, s\<lparr>sess_commits := Suc (sess_commits s)\<rparr>)"

definition close :: "driver \<Rightarrow> session \<Rightarrow> exc option \<times> session" where
  "close drv s = (close_raises drv s, s\<lparr>sess_closes := Suc (sess_closes s)\<rparr>)"

text \<open>
  \<^verbatim>\<open>load_dataframe_to_snowflake(df)\<close>. The body is what stands inside \<^verbatim>\<open>try\<close>; the
  \<^verbatim>\<open>finally\<close> clause closes the session after it, however the body ended, and an
  exception of \<^verbatim>\<open>ctx.close()\<close> itself replaces the outcome of the body. When
  \<^verbatim>\<open>connect\<close> raises there is no session. The final \<^verbatim>\<open>print\<close> is left out. The
  store is returned as it was received: the function does not write to the dictionary.
\<close>

definition staging_write_failed :: exc where
  "staging_write_failed =
     Exc True ''RuntimeError'' ''Failed to write DataFrame to the staging table.'' None"

definition load_body :: "driver \<Rightarrow> snowflake_config \<Rightarrow> dataframe \<Rightarrow> session \<Rightarrow> exc option \<times> session" where
  "load_body drv conf df s =
     (let staging_table = cfg_table conf @ ''_staging''
      in case execute_all drv
             [''CREATE DATABASE IF NOT EXISTS '' @ cfg_database conf,
              ''USE DATABASE '' @ cfg_database conf,
              ''CREATE SCHEMA IF NOT EXISTS '' @ cfg_schema conf,
              ''USE SCHEMA '' @ cfg_schema conf,
              snowflake_create_table (cfg_table conf) df,
              ''CREATE OR REPLACE TEMPORARY TABLE '' @ staging_table @ '' LIKE '' @ cfg_table conf]
             s of
           (Some err, s1) \<Rightarrow> (Some err, s1)
         | (None, s1) \<Rightarrow>
             (let s2 = s1\<lparr>sess_written := sess_written s1 @ [(staging_table, df)]\<rparr>
              in case write_pandas_returns drv s1 df staging_table of
                   Inl err \<Rightarrow> (Some err, s2)
                 | Inr (success, nrows) \<Rightarrow>
                     if \<not> success then (Some staging_write_failed, s2)
                     else
                       (case execute drv
                               (merge_stmt (cfg_table conf) (cfg_unique_keys conf) (columns df))
                               s2 of
                          (Some err, s3) \<Rightarrow> (Some err, s3)
                        | (None, s3) \<Rightarrow> commit drv s3)))"

definition load_dataframe_to_snowflake ::
  "driver \<Rightarrow> store \<Rightarrow> snowflake_connector \<Rightarrow> dataframe \<Rightarrow> exc option \<times> store \<times> session option" where
  "load_dataframe_to_snowflake drv st self df =
     (let ps = st (connection_params self)
      in case connect_raises drv ps of
           Some err \<Rightarrow> (Some err, st, None)
         | None \<Rightarrow>
             (case load_body drv (config self) df (connect ps) of
                (r, s1) \<Rightarrow>
                  (case close drv s1 of
                     (Some err, s2) \<Rightarrow> (Some err, st, Some s2)
                   | (None, s2) \<Rightarrow> (r, st, Some s2))))"

text \<open>
  \<^verbatim>\<open>extract_dataframe_from_snowflake()\<close>. Its first statement is
  \<^verbatim>\<open>self.connection_params.update({"database": ..., "schema": ...})\<close>, which writes to
  the dictionary the connector refers to, before anything else happens.
\<close>

definition read_body :: "driver \<Rightarrow> snowflake_config \<Rightarrow> session \<Rightarrow> (exc + dataframe) \<times> session" where
  "read_body drv conf s =
     (case execute drv (''SELECT * FROM '' @ cfg_table conf @ '';'') s of
        (Some err, s1) \<Rightarrow> (Inl err, s1)
      | (None, s1) \<Rightarrow> (fetch_returns drv s1, s1))"

definition extract_dataframe_from_snowflake ::
  "driver \<Rightarrow> store \<Rightarrow> snowflake_connector \<Rightarrow> (exc + dataframe) \<times> store \<times> session option" where
  "extract_dataframe_from_snowflake drv st self =
     (let ps = dict_set ''schema'' (Some (cfg_schema (config self)))
                 (dict_set ''database'' (Some (cfg_database (config self)))
                    (st (connection_params self)));
          st' = st(connection_params self := ps)
      in case connect_raises drv ps of
           Some err \<Rightarrow> (Inl err, st', None)
         | None \<Rightarrow>
             (case read_body drv (config self) (connect ps) of
                (r, s1) \<Rightarrow>
                  (case close drv s1 of
                     (Some err, s2) \<Rightarrow> (Inl err, st', Some s2)
                   | (None, s2) \<Rightarrow> (r, st', Some s2))))"

section \<open>The pipeline base contract\<close>

text \<open>
  \<^verbatim>\<open>DataExtractor.etl\<close> of \<^verbatim>\<open>utils/base_classes.py\<close>. The three phases are methods
  that a pipeline overrides; they work by effect on the pipeline object and on the world
  outside, so a phase is a function from the state before to the exception it raised, if
  any, and the state after. Each phase runs inside its own
  \<^verbatim>\<open>try: ... except Exception as err: raise RuntimeError(...) from err\<close>, which catches
  instances of \<^verbatim>\<open>Exception\<close> only. Beside the exception and the final state, the
  model returns the list of the phases that were started.
\<close>

datatype stage = Extract | Transform | Load

type_synonym 's phase = "'s \<Rightarrow> exc option \<times> 's"

definition stage_failure :: "string \<Rightarrow> exc \<Rightarrow> exc" where
  "stage_failure what err =
     Exc True ''RuntimeError''
       (''Scraper failed at '' @ what @ ''. Error was '' @ exc_str err) (Some err)"

definition guarded :: "string \<Rightarrow> 's phase \<Rightarrow> 's phase" where
  "guarded what phase s =
     (case phase s of
        (None, s') \<Rightarrow> (None, s')
      | (Some err, s') \<Rightarrow>
          if is_Exception err then (Some (stage_failure what err), s') else (Some err, s'))"

definition etl :: "'s phase \<Rightarrow> 's phase \<Rightarrow> 's phase \<Rightarrow> 's \<Rightarrow> exc option \<times> stage list \<times> 's" where
  "etl extract transform load s =
     (case guarded ''Extraction'' extract s of
        (Some err, s1) \<Rightarrow> (Some err, [Extract], s1)
      | (None, s1) \<Rightarrow>
          (case guarded ''Transformation'' transform s1 of
             (Some err, s2) \<Rightarrow> (Some err, [Extract, Transform], s2)
           | (None, s2) \<Rightarrow>
               (case guarded ''Upload'' load s2 of
                  (r, s3) \<Rightarrow> (r, [Extract, Transform, Load], s3))))"

text \<open>The base class's own \<^verbatim>\<open>extract\<close> and \<^verbatim>\<open>transform\<close> raise.\<close>

definition DataExtractor_extract :: "'s phase" where
  "DataExtractor_extract s =
     (Some (Exc True ''NotImplementedError'' ''Extract Method Not Implemented.'' None), s)"

definition DataExtractor_transform :: "'s phase" where
  "DataExtractor_transform s =
     (Some (Exc True ''NotImplementedError'' ''Transform Method Not Implemented.'' None), s)"

section \<open>The checkpoint pipeline and its driver\<close>

text \<open>
  \<^verbatim>\<open>TSAETL.__init__(year)\<close> of \<^verbatim>\<open>main.py\<close>. The metadata dictionary keeps its
  insertion order. The constructor reads \<^verbatim>\<open>base_variables.prefix\<close> and the clock
  (\<^verbatim>\<open>datetime.now().year\<close>); both are arguments here. \<^verbatim>\<open>metadata["source"]\<close> is the
  entry written two lines above it.
\<close>

definition source_url :: string where
  "source_url = ''https://www.tsa.gov/travel/passenger-volumes''"

record tsaetl =
  metadata :: "(string \<times> string) list"
  url :: string

definition TSAETL_init :: "string \<Rightarrow> int \<Rightarrow> int \<Rightarrow> tsaetl" where
  "TSAETL_init prefix now_year year =
     \<lparr>metadata =
        [(''country'', ''US''),
         (''frequency'', ''daily''),
         (''series_id'', prefix @ ''TSA'' @ [bslash] @ ''passenger_volumes''),
         (''source'', source_url),
         (''unit'', ''number_of'')],
      url = (if year = now_year then source_url else source_url @ ''/'' @ str_int year)\<rparr>"

text \<open>
  \<^verbatim>\<open>main()\<close>: \<^verbatim>\<open>for year in range(start_year, current_year + 1)\<close>, construct the
  pipeline and call its \<^verbatim>\<open>etl()\<close>. The world \<open>'w\<close> is everything outside the program;
  \<open>clock\<close> reads the calendar year from it, and \<open>run_etl\<close> is the effect of one
  pipeline's \<^verbatim>\<open>etl()\<close> on it, with the exception that left it, if any. An exception is
  not caught by the loop. Beside the exception and the final world, the model returns the
  list of the pipelines whose \<^verbatim>\<open>etl()\<close> was called, each with its outcome.
\<close>

fun main_loop ::
  "('w \<Rightarrow> int) \<Rightarrow> (tsaetl \<Rightarrow> 'w \<Rightarrow> exc option \<times> 'w) \<Rightarrow> string \<Rightarrow> int list \<Rightarrow> 'w
     \<Rightarrow> exc option \<times> (tsaetl \<times> exc option) list \<times> 'w" where
  "main_loop clock run_etl prefix [] w = (None, [], w)"
| "main_loop clock run_etl prefix (year # years) w =
     (let tsa_etl = TSAETL_init prefix (clock w) year
      in case run_etl tsa_etl w of
           (Some err, w') \<Rightarrow> (Some err, [(tsa_etl, Some err)], w')
         | (None, w') \<Rightarrow>
             (case main_loop clock run_etl prefix years w' of
                (r, calls, w'') \<Rightarrow> (r, (tsa_etl, None) # calls, w'')))"

definition main ::
  "('w \<Rightarrow> int) \<Rightarrow> (tsaetl \<Rightarrow> 'w \<Rightarrow> exc option \<times> 'w) \<Rightarrow> string \<Rightarrow> int \<Rightarrow> 'w
     \<Rightarrow> exc option \<times> (tsaetl \<times> exc option) list \<times> 'w" where
  "main clock run_etl prefix start_year w =
     (let current_year = clock w
      in main_loop clock run_etl prefix [start_year .. current_year] w)"

section \<open>The transformation\<close>












text \<open>
  The operations on tables that \<^verbatim>\<open>transform\<close> uses. \<^verbatim>\<open>df[label] = cells\<close> replaces
  the column of that label where it stands, or adds it at the end; \<^verbatim>\<open>df.loc[:, labels]\<close>
  takes the columns of the labels, in the order of the labels;
  \<^verbatim>\<open>df.rename(columns=mapping)\<close> renames the labels that the mapping has and leaves the
  others; \<^verbatim>\<open>df.assign(**metadata)\<close> sets, for each entry in order, a column of the
  entry's name that holds the entry's value in every row. \<^verbatim>\<open>str.upper\<close> is modelled on
  the letters a to z.
\<close>

definition nrows :: "dataframe \<Rightarrow> nat" where
  "nrows df = (case df of [] \<Rightarrow> 0 | c # _ \<Rightarrow> length (col_cells c))"









section \<open>The dashboard's metadata helper\<close>

text \<open>
  \<^verbatim>\<open>Series.unique()\<close> gives the distinct values in the order of their first appearance,
  missing values among them; \<^verbatim>\<open>Series.nunique()\<close> counts the distinct values that are
  not missing. \<^verbatim>\<open>str\<close> of a cell is its text; a date prints as year, month and day
  with leading zeros.
\<close>

fun unique :: "'a list \<Rightarrow> 'a list" where
  "unique [] = []"
| "unique (x # xs) = x # unique (filter (\<lambda>y. y \<noteq> x) xs)"

definition is_missing :: "cell \<Rightarrow> bool" where
  "is_missing c = (c = NoneV \<or> c = NaN)"

definition nunique :: "cell list \<Rightarrow> nat" where
  "nunique cells = length (unique (filter (\<lambda>c. \<not> is_missing c) cells))"

definition zero_pad :: "nat \<Rightarrow> string \<Rightarrow> string" where
  "zero_pad n s = replicate (n - length s) (CHR ''0'') @ s"

definition str_cell :: "cell \<Rightarrow> string" where
  "str_cell c =
     (case c of
        NoneV \<Rightarrow> ''None''
      | NaN \<Rightarrow> ''nan''
      | IntV i \<Rightarrow> str_int i
      | StrV s \<Rightarrow> s
      | DateV d \<Rightarrow>
          zero_pad 4 (str_int (date_year d)) @ ''-'' @ zero_pad 2 (digits (date_month d)) @ ''-'' @
          zero_pad 2 (digits (date_day d)))"

text \<open>
  \<^verbatim>\<open>extract_metadata(df)\<close> of \<^verbatim>\<open>webapp.py\<close>. The value for one column is the
  conditional expression of the dictionary comprehension; \<^verbatim>\<open>unique()[0]\<close> raises an
  \<^verbatim>\<open>IndexError\<close> on an empty array. When a label stands for several columns,
  \<^verbatim>\<open>df[col]\<close> is a table, \<^verbatim>\<open>nunique() == 1\<close> is a series, and taking its truth value
  raises a \<^verbatim>\<open>ValueError\<close>. The dictionary keeps one entry per key, in insertion order.
\<close>

definition column_metadata :: "cell list \<Rightarrow> exc + cell" where
  "column_metadata cells =
     (if nunique cells = 1
      then (case unique cells of
              [] \<Rightarrow> Inl (Exc True ''IndexError'' ''index 0 is out of bounds'' None)
            | v # _ \<Rightarrow> Inr v)
      else Inr (StrV (join_str '', '' (map str_cell (unique cells)))))"

fun metadata_dict :: "dataframe \<Rightarrow> string list \<Rightarrow> (string \<times> cell) list \<Rightarrow> exc + (string \<times> cell) list" where
  "metadata_dict df [] d = Inr d"
| "metadata_dict df (col # cols) d =
     (case filter (\<lambda>c. col_label c = col) df of
        [c] \<Rightarrow>
          (case column_metadata (col_cells c) of
             Inl err \<Rightarrow> Inl err
           | Inr v \<Rightarrow> metadata_dict df cols (dict_set col v d))
      | _ \<Rightarrow> Inl (Exc True ''ValueError'' ''The truth value of a Series is ambiguous'' None))"

definition extract_metadata :: "dataframe \<Rightarrow> exc + dataframe" where
  "extract_metadata df =
     (let metadata_columns = filter (\<lambda>col. col \<notin> set [''TRAVEL_DATE'', ''VALUE'']) (columns df)
      in case metadata_dict df metadata_columns [] of
           Inl err \<Rightarrow> Inl err
         | Inr d \<Rightarrow>
             Inr [\<lparr>col_label = ''Fields'', col_dtype = ''object'',
                    col_cells = map (\<lambda>kv. StrV (fst kv)) d\<rparr>,
                  \<lparr>col_label = ''Metadata'', col_dtype = ''object'', col_cells = map snd d\<rparr>])"

section \<open>The fixtures of the repository's tests\<close>

text \<open>
  The table, the configuration and the connection parameters of
  \<^verbatim>\<open>tests/test_snowflake_connector.py\<close>; the parameters live at address 0 of a store.
  Two warehouses for them: one where nothing raises, \<^verbatim>\<open>write_pandas\<close> reports success
  and \<^verbatim>\<open>fetch_pandas_all\<close> returns the sample table, and one that differs only in that
  \<^verbatim>\<open>write_pandas\<close> reports no success.
\<close>

definition sample_df :: dataframe where
  "sample_df =
     [\<lparr>col_label = ''id'', col_dtype = ''int64'', col_cells = [IntV 1, IntV 2, IntV 3]\<rparr>,
      \<lparr>col_label = ''name'', col_dtype = ''object'',
        col_cells = [StrV ''John'', StrV ''Jane'', StrV ''Bob'']\<rparr>]"

definition test_config :: snowflake_config where
  "test_config =
     \<lparr>cfg_database = ''test_database'', cfg_schema = ''test_schema'',
      cfg_table = ''test_table'', cfg_unique_keys = [''id'']\<rparr>"

definition test_params :: params where
  "test_params =
     [(''user'', Some ''test_user''), (''password'', Some ''test_password''),
      (''account'', Some ''test_account'')]"

definition test_store :: store where
  "test_store = (\<lambda>a. [])(0 := test_params)"

definition test_connector :: snowflake_connector where
  "test_connector = SnowflakeConnector_init 0 test_config"

definition good_warehouse :: driver where
  "good_warehouse =
     \<lparr>connect_raises = (\<lambda>ps. None),
      execute_raises = (\<lambda>s stmt. None),
      write_pandas_returns = (\<lambda>s df t. Inr (True, length (col_cells (hd df)))),
      commit_raises = (\<lambda>s. None),
      fetch_returns = (\<lambda>s. Inr sample_df),
      close_raises = (\<lambda>s. None)\<rparr>"

definition refusing_warehouse :: driver where
  "refusing_warehouse = good_warehouse\<lparr>write_pandas_returns := (\<lambda>s df t. Inr (False, 0))\<rparr>"


definition warehouse_df :: dataframe where
  "warehouse_df =
     [\<lparr>col_label = ''TRAVEL_DATE'', col_dtype = ''object'',
        col_cells = [DateV (Date 2022 1 1), DateV (Date 2022 1 2), DateV (Date 2022 1 3)]\<rparr>,
      \<lparr>col_label = ''VALUE'', col_dtype = ''int64'',
        col_cells = [IntV 100, IntV 200, IntV 300]\<rparr>,
      \<lparr>col_label = ''COUNTRY'', col_dtype = ''object'',
        col_cells = [StrV ''US'', StrV ''US'', StrV ''US'']\<rparr>,
      \<lparr>col_label = ''FREQUENCY'', col_dtype = ''object'',
        col_cells = [StrV ''weekly'', StrV ''daily'', StrV ''weekly'']\<rparr>]"

section \<open>Properties\<close>

subsection \<open>Creation statement\<close>

text \<open>
  Claim C5. For every table name and every table, the creation statement is
  \<^verbatim>\<open>CREATE TABLE IF NOT EXISTS <table> (\<close>, then for each column, in column order and
  separated by a comma and a space, the double-quoted column name, a space and its SQL
  type, then \<^verbatim>\<open>);\<close>. The SQL type is TEXT for \<^verbatim>\<open>object\<close>, NUMBER for
  \<^verbatim>\<open>int64\<close>, FLOAT for \<^verbatim>\<open>float64\<close>, BOOLEAN for \<^verbatim>\<open>bool\<close>, TIMESTAMP\_NTZ for
  \<^verbatim>\<open>datetime64[ns]\<close> and TEXT for every other dtype. For the table of the
  repository's test, with the columns id (int64) and name (object), the statement is
  exactly the one the test expects.
\<close>

theorem snowflake_create_table_statement:
  \<open>snowflake_create_table t df =
      ''CREATE TABLE IF NOT EXISTS '' @ t @ '' ('' @
        join_str '', '' (map (\<lambda>c. [dq] @ col_label c @ [dq] @ '' '' @
          (if col_dtype c = ''object'' then ''TEXT''
           else if col_dtype c = ''int64'' then ''NUMBER''
           else if col_dtype c = ''float64'' then ''FLOAT''
           else if col_dtype c = ''bool'' then ''BOOLEAN''
           else if col_dtype c = ''datetime64[ns]'' then ''TIMESTAMP_NTZ''
           else ''TEXT'')) df) @ '');''
    \<and> snowflake_create_table ''test_table''
        [\<lparr>col_label = ''id'', col_dtype = ''int64'', col_cells = [IntV 1, IntV 2, IntV 3]\<rparr>,
         \<lparr>col_label = ''name'', col_dtype = ''object'',
           col_cells = [StrV ''John'', StrV ''Jane'', StrV ''Bob'']\<rparr>] =
      ''CREATE TABLE IF NOT EXISTS test_table ("id" NUMBER, "name" TEXT);''\<close>
proof -
  have sql: "column_sql (col_label c, col_dtype c) = [dq] @ col_label c @ [dq] @ '' '' @
          (if col_dtype c = ''object'' then ''TEXT''
           else if col_dtype c = ''int64'' then ''NUMBER''
           else if col_dtype c = ''float64'' then ''FLOAT''
           else if col_dtype c = ''bool'' then ''BOOLEAN''
           else if col_dtype c = ''datetime64[ns]'' then ''TIMESTAMP_NTZ''
           else ''TEXT'')" for c
    by (simp add: column_sql_def dict_get_def dtype_mapping_def)
  have m: "map column_sql (dtypes df) = map (\<lambda>c. [dq] @ col_label c @ [dq] @ '' '' @
          (if col_dtype c = ''object'' then ''TEXT''
           else if col_dtype c = ''int64'' then ''NUMBER''
           else if col_dtype c = ''float64'' then ''FLOAT''
           else if col_dtype c = ''bool'' then ''BOOLEAN''
           else if col_dtype c = ''datetime64[ns]'' then ''TIMESTAMP_NTZ''
           else ''TEXT'')) df"
    unfolding dtypes_def map_map comp_def sql ..
  have general: "snowflake_create_table t df =
      ''CREATE TABLE IF NOT EXISTS '' @ t @ '' ('' @
        join_str '', '' (map (\<lambda>c. [dq] @ col_label c @ [dq] @ '' '' @
          (if col_dtype c = ''object'' then ''TEXT''
           else if col_dtype c = ''int64'' then ''NUMBER''
           else if col_dtype c = ''float64'' then ''FLOAT''
           else if col_dtype c = ''bool'' then ''BOOLEAN''
           else if col_dtype c = ''datetime64[ns]'' then ''TIMESTAMP_NTZ''
           else ''TEXT'')) df) @ '');''"
    unfolding snowflake_create_table_def Let_def m ..
  have test: \<open>snowflake_create_table ''test_table''
        [\<lparr>col_label = ''id'', col_dtype = ''int64'', col_cells = [IntV 1, IntV 2, IntV 3]\<rparr>,
         \<lparr>col_label = ''name'', col_dtype = ''object'',
           col_cells = [StrV ''John'', StrV ''Jane'', StrV ''Bob'']\<rparr>] =
      ''CREATE TABLE IF NOT EXISTS test_table ("id" NUMBER, "name" TEXT);''\<close>
    by (simp add: snowflake_create_table_def dtypes_def column_sql_def dict_get_def
        dtype_mapping_def dq_def)
  from general test show ?thesis
    by (rule conjI)
qed

subsection \<open>The default start year\<close>

lemma month_cases:
  assumes "1 \<le> m" and "m \<le> (12::nat)"
  shows "m = 1 \<or> m = 2 \<or> m = 3 \<or> m = 4 \<or> m = 5 \<or> m = 6 \<or>
         m = 7 \<or> m = 8 \<or> m = 9 \<or> m = 10 \<or> m = 11 \<or> m = 12"
  using assms by arith

lemma days_before_month_Suc:
  "1 \<le> m \<Longrightarrow> days_before_month y (Suc m) = days_before_month y m + days_in_month y m"
  by (simp add: days_before_month_def)

lemma days_in_month_pos: "1 \<le> days_in_month y m"
  by (simp add: days_in_month_def)

text \<open>Inside a year, a step back keeps the year and lowers the position by one.\<close>

lemma prev_day_step:
  assumes "valid_date d" and "1 < day_of_year d"
  shows "valid_date (prev_day d) \<and> date_year (prev_day d) = date_year d \<and>
         day_of_year (prev_day d) = day_of_year d - 1"
proof (cases d)
  case (Date y m dd)
  show ?thesis
  proof (cases "1 < dd")
    case True
    with assms Date show ?thesis
      by (auto simp: valid_date_def day_of_year_def)
  next
    case False
    with assms Date have dd: "dd = 1"
      by (auto simp: valid_date_def)
    have "1 < m"
    proof (rule ccontr)
      assume "\<not> 1 < m"
      with assms Date have "m = 1"
        by (auto simp: valid_date_def)
      with dd Date assms(2) show False
        by (simp add: day_of_year_def days_before_month_def)
    qed
    then obtain k where k: "m = Suc k" "1 \<le> k"
      by (cases m) auto
    from assms Date k have "k \<le> 11"
      by (auto simp: valid_date_def)
    with Date dd k days_in_month_pos [of y k] show ?thesis
      by (simp add: valid_date_def day_of_year_def days_before_month_Suc)
  qed
qed

lemma days_back_within:
  "valid_date d \<Longrightarrow> n < day_of_year d \<Longrightarrow>
     valid_date (days_back n d) \<and> date_year (days_back n d) = date_year d \<and>
     day_of_year (days_back n d) = day_of_year d - n"
proof (induction n arbitrary: d)
  case 0
  then show ?case by simp
next
  case (Suc n)
  from Suc.prems have "1 < day_of_year d"
    by simp
  from prev_day_step [OF Suc.prems(1) this] Suc.prems(2) Suc.IH [of "prev_day d"]
  show ?case by simp
qed

text \<open>From the first of January, a step back reaches the 31st of December before.\<close>

lemma prev_day_first:
  assumes "valid_date d" and "day_of_year d = 1"
  shows "prev_day d = Date (date_year d - 1) 12 31"
proof (cases d)
  case (Date y m dd)
  from assms Date have dd: "dd = 1"
    by (auto simp: valid_date_def day_of_year_def)
  have "m = 1"
  proof (rule ccontr)
    assume "m \<noteq> 1"
    with assms Date obtain k where k: "m = Suc k" "1 \<le> k"
      by (cases m) (auto simp: valid_date_def)
    with assms(2) Date dd days_in_month_pos [of y k] show False
      by (simp add: day_of_year_def days_before_month_Suc)
  qed
  with dd Date show ?thesis by simp
qed

lemma day_of_year_dec31: "day_of_year (Date y 12 31) = year_length y"
  by (simp add: day_of_year_def days_before_month_def upt_rec days_in_month_def year_length_def)

lemma day_of_year_bound:
  assumes "valid_date d"
  shows "1 \<le> day_of_year d \<and> day_of_year d \<le> year_length (date_year d) \<and>
         (day_of_year d = 366 \<longleftrightarrow>
            is_leap (date_year d) \<and> date_month d = 12 \<and> date_day d = 31)"
proof (cases d)
  case (Date y m dd)
  with assms have m: "1 \<le> m" "m \<le> 12" and dd: "1 \<le> dd" "dd \<le> days_in_month y m"
    by (auto simp: valid_date_def)
  from month_cases [OF m] dd Date show ?thesis
    by (elim disjE)
      (auto simp: day_of_year_def days_before_month_def upt_rec days_in_month_def
         year_length_def)
qed

lemma days_back_add: "days_back (a + b) d = days_back b (days_back a d)"
  by (induction a arbitrary: d) auto

text \<open>
  365 days before a date lies in the year before, except from the 31st of December of a
  leap year, the 366th day of its year, from where it is the first of January of the
  same year.
\<close>

lemma days_back_365_year:
  assumes "valid_date d"
  shows "date_year (days_back 365 d) =
     (if is_leap (date_year d) \<and> date_month d = 12 \<and> date_day d = 31
      then date_year d else date_year d - 1)"
proof (cases "day_of_year d = 366")
  case True
  with days_back_within [OF assms, of 365] day_of_year_bound [OF assms] show ?thesis
    by simp
next
  case False
  let ?k = "day_of_year d"
  from day_of_year_bound [OF assms] False have k: "1 \<le> ?k" "?k \<le> 365"
    by (auto simp: year_length_def split: if_splits)
  let ?e = "days_back (?k - 1) d"
  from days_back_within [OF assms, of "?k - 1"] k
  have e: "valid_date ?e" "date_year ?e = date_year d" "day_of_year ?e = 1"
    by auto
  let ?p = "Date (date_year d - 1) 12 31"
  have p: "prev_day ?e = ?p"
    using prev_day_first [OF e(1) e(3)] e(2) by simp
  have vp: "valid_date ?p"
    by (simp add: valid_date_def days_in_month_def)
  have "365 = (?k - 1) + (1 + (365 - ?k))"
    using k by simp
  then have "days_back 365 d = days_back (1 + (365 - ?k)) ?e"
    using days_back_add [of "?k - 1" "1 + (365 - ?k)" d] by simp
  also have "\<dots> = days_back (365 - ?k) ?p"
    using p by simp
  finally have eq: "days_back 365 d = days_back (365 - ?k) ?p" .
  have "365 - ?k < day_of_year ?p"
    using k by (auto simp: day_of_year_dec31 year_length_def)
  from days_back_within [OF vp this] eq False day_of_year_bound [OF assms] show ?thesis
    by auto
qed

text \<open>
  Claim C9, as stated, fails on the 31st of December of a leap year: with
  \<^verbatim>\<open>--start_year\<close> omitted on 2024-12-31, the parsed start year is 2024, the current
  year, and not 2023.
\<close>

theorem parse_args_default_leap_year_counterexample:
  "parse_args (Date 2024 12 31) None None =
     Inr \<lparr>arg_environment = ''uat'', arg_start_year = 2024, arg_sf_prefix = ''uat'' @ [bslash]\<rparr>
   \<and> (2024::int) \<noteq> date_year (Date 2024 12 31) - 1"
  by code_simp

text \<open>
  Claim C9, amended. For every valid invocation date after year 1 and every accepted
  \<^verbatim>\<open>--environment\<close>: when \<^verbatim>\<open>--start_year\<close> is omitted, parsing succeeds and the start
  year is the year of (today minus 365 days), which is the current year minus 1 on every
  date but the 31st of December of a leap year, where it is the current year; and an
  explicit \<^verbatim>\<open>--start_year\<close> is rejected with the argument-parsing exit exactly when it
  lies outside the inclusive range from 2019 to the current year.
\<close>

theorem parse_args_start_year:
  assumes "valid_date now" and "1 < date_year now"
    and "env = None \<or> env = Some ''prod'' \<or> env = Some ''uat''"
  shows "(\<exists>a before. parse_args now env None = Inr a \<and>
            minus_days now 365 = Inr before \<and>
            arg_start_year a = date_year before \<and>
            arg_start_year a =
              (if is_leap (date_year now) \<and> date_month now = 12 \<and> date_day now = 31
               then date_year now else date_year now - 1))
       \<and> (parse_args now env (Some y) = Inl argparse_exit \<longleftrightarrow>
            \<not> (2019 \<le> y \<and> y \<le> date_year now))
       \<and> (2019 \<le> y \<and> y \<le> date_year now \<longrightarrow>
            (\<exists>a. parse_args now env (Some y) = Inr a \<and> arg_start_year a = y))"
proof -
  from days_back_365_year [OF assms(1)] assms(2)
  have yr: "date_year (days_back 365 now) =
     (if is_leap (date_year now) \<and> date_month now = 12 \<and> date_day now = 31
      then date_year now else date_year now - 1)"
    and pos: "\<not> date_year (days_back 365 now) < 1"
    by (auto split: if_splits)
  from pos have md: "minus_days now 365 = Inr (days_back 365 now)"
    by (simp add: minus_days_def Let_def)
  from assms(3) have env: "(case env of None \<Rightarrow> False | Some e \<Rightarrow> e \<notin> set [''prod'', ''uat'']) = False"
    by auto
  have 1: "\<exists>a before. parse_args now env None = Inr a \<and>
            minus_days now 365 = Inr before \<and>
            arg_start_year a = date_year before \<and>
            arg_start_year a =
              (if is_leap (date_year now) \<and> date_month now = 12 \<and> date_day now = 31
               then date_year now else date_year now - 1)"
    using yr by (simp add: parse_args_def md env Let_def)
  have 2: "parse_args now env (Some y) = Inl argparse_exit \<longleftrightarrow>
            \<not> (2019 \<le> y \<and> y \<le> date_year now)"
    by (simp add: parse_args_def md env Let_def)
  have 3: "2019 \<le> y \<and> y \<le> date_year now \<longrightarrow>
            (\<exists>a. parse_args now env (Some y) = Inr a \<and> arg_start_year a = y)"
    by (simp add: parse_args_def md env Let_def)
  from 1 2 3 show ?thesis
    by blast
qed

theorem parse_args_start_year_witness:
  "valid_date (Date 2026 11 4) \<and> 1 < date_year (Date 2026 11 4)
   \<and> parse_args (Date 2026 11 4) None None =
       Inr \<lparr>arg_environment = ''uat'', arg_start_year = 2025, arg_sf_prefix = ''uat'' @ [bslash]\<rparr>
   \<and> parse_args (Date 2026 11 4) None (Some 2018) = Inl argparse_exit
   \<and> parse_args (Date 2026 11 4) None (Some 2027) = Inl argparse_exit
   \<and> parse_args (Date 2026 11 4) (Some ''prod'') (Some 2019) =
       Inr \<lparr>arg_environment = ''prod'', arg_start_year = 2019, arg_sf_prefix = ''''\<rparr>"
proof -
  have v: "valid_date (Date 2026 11 4)"
    by (simp add: valid_date_def days_in_month_def)
  have y: "1 < date_year (Date 2026 11 4)"
    by simp
  have leap: "\<not> is_leap 2026"
    by (simp add: is_leap_def)
  from parse_args_start_year [OF v y, of None 2018]
  obtain a where a: "parse_args (Date 2026 11 4) None None = Inr a" "arg_start_year a = 2025"
    and lo: "parse_args (Date 2026 11 4) None (Some 2018) = Inl argparse_exit"
    using leap by auto
  from a have env: "arg_environment a = ''uat''" and pre: "arg_sf_prefix a = ''uat'' @ [bslash]"
    by (auto simp: parse_args_def Let_def split: sum.splits)
  from parse_args_start_year [OF v y, of None 2027]
  have hi: "parse_args (Date 2026 11 4) None (Some 2027) = Inl argparse_exit"
    by simp
  from parse_args_start_year [OF v y, of "Some ''prod''" 2019]
  obtain b where b: "parse_args (Date 2026 11 4) (Some ''prod'') (Some 2019) = Inr b"
    "arg_start_year b = 2019"
    by auto
  from b have "arg_environment b = ''prod''" "arg_sf_prefix b = ''''"
    by (auto simp: parse_args_def Let_def split: sum.splits if_splits)
  with b have b': "b = \<lparr>arg_environment = ''prod'', arg_start_year = 2019, arg_sf_prefix = ''''\<rparr>"
    by simp
  from a env pre have a': "a = \<lparr>arg_environment = ''uat'', arg_start_year = 2025, arg_sf_prefix = ''uat'' @ [bslash]\<rparr>"
    by simp
  from v y a a' lo hi b b' show ?thesis
    by simp
qed

subsection \<open>Stage attribution\<close>

lemma guarded_None: "fst (guarded what phase s) = None \<longleftrightarrow> fst (phase s) = None"
  by (simp add: guarded_def split: prod.splits option.splits)

lemma guarded_state: "snd (guarded what phase s) = snd (phase s)"
  by (simp add: guarded_def split: prod.splits option.splits)

text \<open>
  Claim C4. For every error (an instance of \<^verbatim>\<open>Exception\<close>) raised inside one of the
  three phases, \<^verbatim>\<open>etl()\<close> raises a \<^verbatim>\<open>RuntimeError\<close> that names the stage
  (Extraction, Transformation, Upload) and carries the original error as its cause; the
  phases after the failing one are not started, and the state is the one the failing
  phase left. No exception of a phase is swallowed: \<^verbatim>\<open>etl()\<close> returns normally only if
  all three phases did.
\<close>

theorem etl_stage_attribution:
  "(extract s = (Some err, s1) \<and> is_Exception err \<longrightarrow>
      etl extract transform load s =
        (Some (Exc True ''RuntimeError''
                 (''Scraper failed at Extraction. Error was '' @ exc_str err) (Some err)),
         [Extract], s1))
   \<and> (extract s = (None, s1) \<and> transform s1 = (Some err, s2) \<and> is_Exception err \<longrightarrow>
      etl extract transform load s =
        (Some (Exc True ''RuntimeError''
                 (''Scraper failed at Transformation. Error was '' @ exc_str err) (Some err)),
         [Extract, Transform], s2))
   \<and> (extract s = (None, s1) \<and> transform s1 = (None, s2) \<and> load s2 = (Some err, s3)
        \<and> is_Exception err \<longrightarrow>
      etl extract transform load s =
        (Some (Exc True ''RuntimeError''
                 (''Scraper failed at Upload. Error was '' @ exc_str err) (Some err)),
         [Extract, Transform, Load], s3))
   \<and> (fst (etl extract transform load s) = None \<longleftrightarrow>
        fst (extract s) = None \<and> fst (transform (snd (extract s))) = None \<and>
        fst (load (snd (transform (snd (extract s))))) = None)"
proof (intro conjI impI)
  assume "extract s = (Some err, s1) \<and> is_Exception err"
  then show "etl extract transform load s =
        (Some (Exc True ''RuntimeError''
                 (''Scraper failed at Extraction. Error was '' @ exc_str err) (Some err)),
         [Extract], s1)"
    by (simp add: etl_def guarded_def stage_failure_def)
next
  assume "extract s = (None, s1) \<and> transform s1 = (Some err, s2) \<and> is_Exception err"
  then show "etl extract transform load s =
        (Some (Exc True ''RuntimeError''
                 (''Scraper failed at Transformation. Error was '' @ exc_str err) (Some err)),
         [Extract, Transform], s2)"
    by (simp add: etl_def guarded_def stage_failure_def)
next
  assume "extract s = (None, s1) \<and> transform s1 = (None, s2) \<and> load s2 = (Some err, s3)
        \<and> is_Exception err"
  then show "etl extract transform load s =
        (Some (Exc True ''RuntimeError''
                 (''Scraper failed at Upload. Error was '' @ exc_str err) (Some err)),
         [Extract, Transform, Load], s3)"
    by (simp add: etl_def guarded_def stage_failure_def)
next
  show "fst (etl extract transform load s) = None \<longleftrightarrow>
        fst (extract s) = None \<and> fst (transform (snd (extract s))) = None \<and>
        fst (load (snd (transform (snd (extract s))))) = None"
  proof (cases "extract s")
    case e: (Pair r1 s1)
    show ?thesis
    proof (cases "transform s1")
      case t: (Pair r2 s2)
      show ?thesis
      proof (cases "load s2")
        case l: (Pair r3 s3)
        from e t l show ?thesis
          by (simp add: etl_def guarded_def split: option.splits)
      qed
    qed
  qed
qed

text \<open>
  A run on a state that counts the phases started: extraction succeeds, transformation
  raises a \<^verbatim>\<open>KeyError\<close>, and the load, which would raise too, is never reached.
\<close>

theorem etl_stage_attribution_witness:
  "etl (\<lambda>n. (None, Suc n))
       (\<lambda>n. (Some (Exc True ''KeyError'' ''Date'' None), Suc n))
       (\<lambda>n. (Some (Exc True ''ProgrammingError'' ''Test Error'' None), Suc n)) (0::nat) =
     (Some (Exc True ''RuntimeError'' ''Scraper failed at Transformation. Error was Date''
              (Some (Exc True ''KeyError'' ''Date'' None))),
      [Extract, Transform], 2)"
  using etl_stage_attribution
    [of "\<lambda>n. (None, Suc n)" "0::nat" "Exc True ''KeyError'' ''Date'' None" "Suc 0"
        "\<lambda>n. (Some (Exc True ''KeyError'' ''Date'' None), Suc n)"
        "\<lambda>n. (Some (Exc True ''ProgrammingError'' ''Test Error'' None), Suc n)" "2" "3"]
  by simp

subsection \<open>The yearly driver\<close>

lemma url_TSAETL_init:
  "url (TSAETL_init prefix now_year year) =
     (if year = now_year then source_url else source_url @ ''/'' @ str_int year)"
  by (simp add: TSAETL_init_def)

text \<open>
  The loop over any list of years, while the clock stays in one calendar year: the
  pipelines called are those of a prefix of the list, in its order; every call but the
  last returned normally; the loop returns normally exactly when it called the pipeline of
  every year and each returned normally, and otherwise it leaves with the exception of
  the last call.
\<close>

lemma main_loop_calls:
  assumes stable: "\<And>p v. clock (snd (run_etl p v)) = clock v"
  shows "clock w = cur \<Longrightarrow> main_loop clock run_etl prefix years w = (r, calls, w') \<Longrightarrow>
     map fst calls = map (TSAETL_init prefix cur) (take (length calls) years) \<and>
     list_all (\<lambda>c. snd c = None) (butlast calls) \<and>
     (r = None \<longrightarrow> length calls = length years \<and> list_all (\<lambda>c. snd c = None) calls) \<and>
     (r \<noteq> None \<longrightarrow> calls \<noteq> [] \<and> snd (last calls) = r)"
proof (induction years arbitrary: w r calls w')
  case Nil
  then show ?case by auto
next
  case (Cons year years)
  let ?p = "TSAETL_init prefix cur year"
  obtain r1 w1 where run: "run_etl ?p w = (r1, w1)"
    by (cases "run_etl ?p w")
  from stable [of ?p w] run Cons.prems(1) have clock1: "clock w1 = cur"
    by simp
  show ?case
  proof (cases r1)
    case (Some err)
    with run Cons.prems show ?thesis
      by auto
  next
    case None
    obtain r2 calls2 w2 where rest: "main_loop clock run_etl prefix years w1 = (r2, calls2, w2)"
      by (cases "main_loop clock run_etl prefix years w1")
    from None run rest Cons.prems have eq: "r = r2" "calls = (?p, None) # calls2"
      by auto
    from Cons.IH [OF clock1 rest] eq show ?thesis
      by (cases calls2) auto
  qed
qed

text \<open>
  Claim C3. Let the clock stay in the calendar year \<open>cur\<close> during the run, and let
  the start year be at most \<open>cur\<close>. The driver calls \<^verbatim>\<open>etl()\<close> on the pipelines of
  the years \<open>start_year, start_year + 1, ...\<close> in ascending order, each at most once and
  without a gap, up to the current year or up to the first year whose call raises; the
  fetch URL of the pipeline for a year is the bare publication URL when the year is the
  current year, and the publication URL followed by a slash and the year otherwise; every
  call but the last returned normally; when no call raises, every year from the start
  year to the current year was called exactly once; when a call raises, it is the last
  call, and its exception leaves the driver.
\<close>

theorem main_runs_each_year_in_order:
  assumes "\<forall>p v. clock (snd (run_etl p v)) = clock v"
    and "start_year \<le> clock w"
    and "main clock run_etl prefix start_year w = (r, calls, w')"
  shows "map (url \<circ> fst) calls =
           map (\<lambda>year. if year = clock w then source_url
                        else source_url @ ''/'' @ str_int year)
             (take (length calls) [start_year .. clock w])
       \<and> list_all (\<lambda>c. snd c = None) (butlast calls)
       \<and> (r = None \<longrightarrow>
            length calls = nat (clock w - start_year + 1) \<and>
            list_all (\<lambda>c. snd c = None) calls)
       \<and> (r \<noteq> None \<longrightarrow> calls \<noteq> [] \<and> snd (last calls) = r)"
proof -
  from assms(1) have stable: "\<And>p v. clock (snd (run_etl p v)) = clock v"
    by blast
  from assms(3) have loop:
    "main_loop clock run_etl prefix [start_year .. clock w] w = (r, calls, w')"
    by (simp add: main_def)
  note facts = main_loop_calls [of clock run_etl w "clock w" prefix "[start_year .. clock w]"
      r calls w', OF stable refl loop]
  from facts have "map (url \<circ> fst) calls =
      map url (map (TSAETL_init prefix (clock w)) (take (length calls) [start_year .. clock w]))"
    by (simp flip: map_map)
  then have urls: "map (url \<circ> fst) calls =
           map (\<lambda>year. if year = clock w then source_url
                        else source_url @ ''/'' @ str_int year)
             (take (length calls) [start_year .. clock w])"
    by (simp add: url_TSAETL_init comp_def)
  from assms(2) have len: "length [start_year .. clock w] = nat (clock w - start_year + 1)"
    by simp
  from facts urls len show ?thesis
    by simp
qed

text \<open>
  Two runs started in 2026 with start year 2024, on a world that holds the year of the
  clock and the URLs fetched so far. In the first every call returns; in the second the
  call for 2025 raises, and the pipeline of 2026 is never called.
\<close>

theorem main_runs_each_year_in_order_witness:
  "(map (url \<circ> fst)
      (fst (snd (main fst (\<lambda>p (y, log). (None, (y, log @ [url p]))) '''' 2024 (2026, [])))) =
      [''https://www.tsa.gov/travel/passenger-volumes/2024'',
       ''https://www.tsa.gov/travel/passenger-volumes/2025'',
       ''https://www.tsa.gov/travel/passenger-volumes''])
   \<and> (main fst
        (\<lambda>p (y, log).
           (if url p = ''https://www.tsa.gov/travel/passenger-volumes/2025''
            then Some (Exc True ''RuntimeError'' ''Scraper failed at Extraction. Error was 404'' None)
            else None, (y, log @ [url p])))
        '''' 2024 (2026, []) =
      (Some (Exc True ''RuntimeError'' ''Scraper failed at Extraction. Error was 404'' None),
       [(TSAETL_init '''' 2026 2024, None),
        (TSAETL_init '''' 2026 2025,
         Some (Exc True ''RuntimeError'' ''Scraper failed at Extraction. Error was 404'' None))],
       (2026, [''https://www.tsa.gov/travel/passenger-volumes/2024'',
               ''https://www.tsa.gov/travel/passenger-volumes/2025''])))"
proof -
  let ?ok = "\<lambda>(p::tsaetl) (y::int, log::string list). (None::exc option, (y, log @ [url p]))"
  obtain r calls w' where m: "main fst ?ok '''' 2024 (2026, []) = (r, calls, w')"
    by (cases "main fst ?ok '''' 2024 (2026, [])")
  have st: "\<forall>p v. fst (snd (?ok p v)) = fst v"
    by (simp add: split_beta)
  have le: "2024 \<le> fst (2026::int, []::string list)"
    by simp
  have r: "r = None"
    using m by (simp add: main_def upto.simps Let_def)
  from main_runs_each_year_in_order [OF st le m] r
  have len: "length calls = 3"
    and urls: "map (url \<circ> fst) calls =
      map (\<lambda>year. if year = 2026 then source_url else source_url @ ''/'' @ str_int year)
        (take (length calls) [2024 .. 2026])"
    by simp_all
  have d: "str_int 2024 = ''2024''" "str_int 2025 = ''2025''"
    by (simp_all add: str_int_def digit_char_def)
  from urls len have "map (url \<circ> fst) calls =
      [''https://www.tsa.gov/travel/passenger-volumes/2024'',
       ''https://www.tsa.gov/travel/passenger-volumes/2025'',
       ''https://www.tsa.gov/travel/passenger-volumes'']"
    by (simp add: upto.simps source_url_def d)
  with m have first: "map (url \<circ> fst)
      (fst (snd (main fst ?ok '''' 2024 (2026, [])))) =
      [''https://www.tsa.gov/travel/passenger-volumes/2024'',
       ''https://www.tsa.gov/travel/passenger-volumes/2025'',
       ''https://www.tsa.gov/travel/passenger-volumes'']"
    by simp
  have second: "main fst
        (\<lambda>p (y, log).
           (if url p = ''https://www.tsa.gov/travel/passenger-volumes/2025''
            then Some (Exc True ''RuntimeError'' ''Scraper failed at Extraction. Error was 404'' None)
            else None, (y, log @ [url p])))
        '''' 2024 (2026, []) =
      (Some (Exc True ''RuntimeError'' ''Scraper failed at Extraction. Error was 404'' None),
       [(TSAETL_init '''' 2026 2024, None),
        (TSAETL_init '''' 2026 2025,
         Some (Exc True ''RuntimeError'' ''Scraper failed at Extraction. Error was 404'' None))],
       (2026, [''https://www.tsa.gov/travel/passenger-volumes/2024'',
               ''https://www.tsa.gov/travel/passenger-volumes/2025'']))"
    by (simp add: main_def upto.simps Let_def url_TSAETL_init source_url_def d)
  from first second show ?thesis
    by (rule conjI)
qed

subsection \<open>The MERGE statement\<close>

lemma split_nl_single: "nl \<notin> set a \<Longrightarrow> split_nl a = [a]"
  by (induction a) auto

lemma split_nl_append: "nl \<notin> set a \<Longrightarrow> split_nl (a @ nl # b) = a # split_nl b"
  by (induction a) auto

lemma set_join_str: "set (join_str sep xs) \<subseteq> set sep \<union> \<Union> (set ` set xs)"
  by (induction sep xs rule: join_str.induct) auto

lemma nl_join_str:
  assumes "nl \<notin> set sep" and "\<forall>x \<in> set xs. nl \<notin> set x"
  shows "nl \<notin> set (join_str sep xs)"
  using set_join_str [of sep xs] assms by auto

lemma nl_merge_condition: "\<forall>k \<in> set ks. nl \<notin> set k \<Longrightarrow> nl \<notin> set (merge_condition ks)"
  unfolding merge_condition_def by (rule nl_join_str) (auto simp: nl_def dq_def)

lemma nl_columns_list: "\<forall>c \<in> set cs. nl \<notin> set c \<Longrightarrow> nl \<notin> set (columns_list cs)"
  unfolding columns_list_def by (rule nl_join_str) (auto simp: nl_def dq_def)

lemma nl_source_columns_list:
  "\<forall>c \<in> set cs. nl \<notin> set c \<Longrightarrow> nl \<notin> set (source_columns_list cs)"
  unfolding source_columns_list_def by (rule nl_join_str) (auto simp: nl_def dq_def)

lemma common_prefix_same: "common_prefix m m = m"
  by (induction m) auto

text \<open>
  \<open>dedent\<close> on a text of eight lines: an empty one, six that are not blank and have
  the same indentation, and a blank one.
\<close>

lemma split_eight_lines:
  assumes "nl \<notin> set l1" "nl \<notin> set l2" "nl \<notin> set l3" "nl \<notin> set l4" "nl \<notin> set l5"
    "nl \<notin> set l6" "nl \<notin> set z"
  shows "split_nl ([nl] @ l1 @ [nl] @ l2 @ [nl] @ l3 @ [nl] @ l4 @ [nl] @ l5 @ [nl] @ l6 @ [nl] @ z)
     = [[], l1, l2, l3, l4, l5, l6, z]"
  using assms by (simp add: split_nl_append split_nl_single)

lemma dedent_eight_lines:
  assumes split: "split_nl text = [[], l1, l2, l3, l4, l5, l6, z]"
    and blank: "\<not> is_blank l1" "\<not> is_blank l2" "\<not> is_blank l3" "\<not> is_blank l4"
      "\<not> is_blank l5" "\<not> is_blank l6" "is_blank z"
    and ind: "indent l1 = m" "indent l2 = m" "indent l3 = m" "indent l4 = m" "indent l5 = m"
      "indent l6 = m"
  shows "dedent text =
     [nl] @ drop (length m) l1 @ [nl] @ drop (length m) l2 @ [nl] @ drop (length m) l3 @ [nl] @
     drop (length m) l4 @ [nl] @ drop (length m) l5 @ [nl] @ drop (length m) l6 @ [nl]"
proof -
  have e: "is_blank []"
    by (simp add: is_blank_def)
  have "margin [[], l1, l2, l3, l4, l5, l6, z] = m"
    by (simp add: margin_def e blank ind common_prefix_same)
  then show ?thesis
    by (simp add: dedent_def split Let_def e blank)
qed

lemma merge_stmt_text:
  assumes t: "nl \<notin> set t" and k: "\<forall>k \<in> set ks. nl \<notin> set k"
    and c: "\<forall>c \<in> set cs. nl \<notin> set c"
  shows "merge_stmt t ks cs =
     [nl] @
     ''MERGE INTO '' @ t @ '' AS target'' @ [nl] @
     ''USING '' @ t @ ''_staging AS source'' @ [nl] @
     ''ON '' @ merge_condition ks @ [nl] @
     ''WHEN NOT MATCHED THEN'' @ [nl] @
     ''INSERT ('' @ columns_list cs @ '')'' @ [nl] @
     ''VALUES ('' @ source_columns_list cs @ '');'' @ [nl]"
proof -
  let ?m = "replicate 20 (CHR '' '')"
  let ?l1 = "?m @ ''MERGE INTO '' @ t @ '' AS target''"
  let ?l2 = "?m @ ''USING '' @ (t @ ''_staging'') @ '' AS source''"
  let ?l3 = "?m @ ''ON '' @ merge_condition ks"
  let ?l4 = "?m @ ''WHEN NOT MATCHED THEN''"
  let ?l5 = "?m @ ''INSERT ('' @ columns_list cs @ '')''"
  let ?l6 = "?m @ ''VALUES ('' @ source_columns_list cs @ '');''"
  let ?z = "replicate 16 (CHR '' '')"
  have n: "nl \<notin> set ?l1" "nl \<notin> set ?l2" "nl \<notin> set ?l3" "nl \<notin> set ?l4" "nl \<notin> set ?l5"
    "nl \<notin> set ?l6" "nl \<notin> set ?z"
    using t nl_merge_condition [OF k] nl_columns_list [OF c] nl_source_columns_list [OF c]
    by (auto simp: nl_def)
  have tmpl: "merge_template t (t @ ''_staging'') ks cs =
    [nl] @ ?l1 @ [nl] @ ?l2 @ [nl] @ ?l3 @ [nl] @ ?l4 @ [nl] @ ?l5 @ [nl] @ ?l6 @ [nl] @ ?z"
    by (simp add: merge_template_def eval_nat_numeral)
  have lines: "split_nl (merge_template t (t @ ''_staging'') ks cs) =
     [[], ?l1, ?l2, ?l3, ?l4, ?l5, ?l6, ?z]"
    unfolding tmpl by (rule split_eight_lines) (fact n)+
  have blank: "\<not> is_blank ?l1" "\<not> is_blank ?l2" "\<not> is_blank ?l3"
    "\<not> is_blank ?l4" "\<not> is_blank ?l5" "\<not> is_blank ?l6" "is_blank ?z"
    by (simp_all add: is_blank_def tab_def list_all_iff)
  have ind: "indent ?l1 = ?m" "indent ?l2 = ?m" "indent ?l3 = ?m"
    "indent ?l4 = ?m" "indent ?l5 = ?m" "indent ?l6 = ?m"
    by (simp_all add: indent_def tab_def takeWhile_append)
  show ?thesis
    unfolding merge_stmt_def Let_def dedent_eight_lines [OF lines blank ind]
    by simp
qed

text \<open>
  Claim C2. For every table name, every list of unique-key columns and every list of
  column names of the input table, none of them containing a line break, the MERGE
  statement that the load operation passes to the warehouse is the following text, line
  by line: MERGE INTO the table AS target; USING the staging table AS source; ON the
  equalities \<^verbatim>\<open>target."k" = source."k"\<close>, one for each configured unique key \<open>k\<close> and
  for nothing else, joined by AND; WHEN NOT MATCHED THEN; INSERT the double-quoted names of
  all columns of the input table; VALUES the same columns of the source. There is no
  other clause: no WHEN MATCHED branch and no update.
\<close>

theorem merge_stmt_insert_only:
  assumes "nl \<notin> set (cfg_table conf)"
    and "\<forall>k \<in> set (cfg_unique_keys conf). nl \<notin> set k"
    and "\<forall>c \<in> set (columns df). nl \<notin> set c"
  shows "merge_stmt (cfg_table conf) (cfg_unique_keys conf) (columns df) =
     [nl] @
     ''MERGE INTO '' @ cfg_table conf @ '' AS target'' @ [nl] @
     ''USING '' @ cfg_table conf @ ''_staging AS source'' @ [nl] @
     ''ON '' @
       join_str '' AND ''
         (map (\<lambda>k. ''target.'' @ [dq] @ k @ [dq] @ '' = source.'' @ [dq] @ k @ [dq])
            (cfg_unique_keys conf)) @ [nl] @
     ''WHEN NOT MATCHED THEN'' @ [nl] @
     ''INSERT ('' @ join_str '', '' (map (\<lambda>c. [dq] @ c @ [dq]) (map col_label df)) @ '')'' @ [nl] @
     ''VALUES ('' @
       join_str '', '' (map (\<lambda>c. ''source.'' @ [dq] @ c @ [dq]) (map col_label df)) @ '');'' @
     [nl]"
  using merge_stmt_text [OF assms]
  unfolding merge_condition_def columns_list_def source_columns_list_def columns_def .

text \<open>The statement for the table and the key of the repository's test.\<close>

theorem merge_stmt_insert_only_witness:
  \<open>merge_stmt ''test_table'' [''id''] [''id'', ''name''] =
     [nl] @
     ''MERGE INTO test_table AS target'' @ [nl] @
     ''USING test_table_staging AS source'' @ [nl] @
     ''ON target."id" = source."id"'' @ [nl] @
     ''WHEN NOT MATCHED THEN'' @ [nl] @
     ''INSERT ("id", "name")'' @ [nl] @
     ''VALUES (source."id", source."name");'' @ [nl]\<close>
proof -
  let ?conf = "\<lparr>cfg_database = ''test_database'', cfg_schema = ''test_schema'',
                cfg_table = ''test_table'', cfg_unique_keys = [''id'']\<rparr>"
  let ?df = "[\<lparr>col_label = ''id'', col_dtype = ''int64'', col_cells = [IntV 1, IntV 2, IntV 3]\<rparr>,
              \<lparr>col_label = ''name'', col_dtype = ''object'',
                col_cells = [StrV ''John'', StrV ''Jane'', StrV ''Bob'']\<rparr>]"
  have 1: "nl \<notin> set (cfg_table ?conf)"
    by (simp add: nl_def)
  have 2: "\<forall>k \<in> set (cfg_unique_keys ?conf). nl \<notin> set k"
    by (simp add: nl_def)
  have 3: "\<forall>c \<in> set (columns ?df). nl \<notin> set c"
    by (simp add: nl_def columns_def)
  from merge_stmt_insert_only [OF 1 2 3] show ?thesis
    by (simp add: columns_def dq_def)
qed

subsection \<open>Warehouse sessions\<close>

lemma execute_closes: "sess_closes (snd (execute drv stmt s)) = sess_closes s"
  by (simp add: execute_def)

lemma execute_all_closes: "sess_closes (snd (execute_all drv stmts s)) = sess_closes s"
proof (induction stmts arbitrary: s)
  case Nil
  then show ?case by simp
next
  case (Cons stmt stmts)
  obtain r s' where e: "execute drv stmt s = (r, s')"
    by (cases "execute drv stmt s")
  with execute_closes [of drv stmt s] have "sess_closes s' = sess_closes s"
    by simp
  with e Cons.IH [of s'] show ?case
    by (cases r) simp_all
qed

lemma commit_closes: "sess_closes (snd (commit drv s)) = sess_closes s"
  by (simp add: commit_def)

lemma load_body_closes: "sess_closes (snd (load_body drv conf df s)) = sess_closes s"
proof -
  let ?stmts = "[''CREATE DATABASE IF NOT EXISTS '' @ cfg_database conf,
              ''USE DATABASE '' @ cfg_database conf,
              ''CREATE SCHEMA IF NOT EXISTS '' @ cfg_schema conf,
              ''USE SCHEMA '' @ cfg_schema conf,
              snowflake_create_table (cfg_table conf) df,
              ''CREATE OR REPLACE TEMPORARY TABLE '' @ (cfg_table conf @ ''_staging'') @ '' LIKE '' @ cfg_table conf]"
  obtain r1 s1 where a: "execute_all drv ?stmts s = (r1, s1)"
    by (cases "execute_all drv ?stmts s")
  with execute_all_closes [of drv ?stmts s] have c1: "sess_closes s1 = sess_closes s"
    by simp
  let ?s2 = "s1\<lparr>sess_written := sess_written s1 @ [(cfg_table conf @ ''_staging'', df)]\<rparr>"
  let ?m = "merge_stmt (cfg_table conf) (cfg_unique_keys conf) (columns df)"
  obtain r3 s3 where m: "execute drv ?m ?s2 = (r3, s3)"
    by (cases "execute drv ?m ?s2")
  with execute_closes [of drv ?m ?s2] c1 have c3: "sess_closes s3 = sess_closes s"
    by simp
  from commit_closes [of drv s3] c3 have c4: "sess_closes (snd (commit drv s3)) = sess_closes s"
    by simp
  show ?thesis
    unfolding load_body_def Let_def a
    using c1 c3 c4 m
    by (auto split: option.splits sum.splits prod.splits simp del: execute_all.simps)
qed

lemma read_body_closes: "sess_closes (snd (read_body drv conf s)) = sess_closes s"
  by (simp add: read_body_def execute_def split: option.splits)

lemma load_closes:
  assumes "connect_raises drv (st (connection_params self)) = None"
  shows "\<exists>r s. load_dataframe_to_snowflake drv st self df = (r, st, Some s) \<and> sess_closes s = 1"
proof -
  let ?ps = "st (connection_params self)"
  obtain r1 s1 where b: "load_body drv (config self) df (connect ?ps) = (r1, s1)"
    by (cases "load_body drv (config self) df (connect ?ps)")
  with load_body_closes [of drv "config self" df "connect ?ps"] have "sess_closes s1 = 0"
    by (simp add: connect_def)
  with assms b show ?thesis
    by (cases "close_raises drv s1") (simp_all add: load_dataframe_to_snowflake_def close_def)
qed

lemma read_closes:
  assumes "connect_raises drv
             (dict_set ''schema'' (Some (cfg_schema (config self)))
                (dict_set ''database'' (Some (cfg_database (config self)))
                   (st (connection_params self)))) = None"
  shows "\<exists>r st' s. extract_dataframe_from_snowflake drv st self = (r, st', Some s) \<and>
           sess_closes s = 1"
proof -
  let ?ps = "dict_set ''schema'' (Some (cfg_schema (config self)))
                (dict_set ''database'' (Some (cfg_database (config self)))
                   (st (connection_params self)))"
  obtain r1 s1 where b: "read_body drv (config self) (connect ?ps) = (r1, s1)"
    by (cases "read_body drv (config self) (connect ?ps)")
  with read_body_closes [of drv "config self" "connect ?ps"] have "sess_closes s1 = 0"
    by (simp add: connect_def)
  with assms b show ?thesis
    by (cases "close_raises drv s1")
      (simp_all add: extract_dataframe_from_snowflake_def close_def Let_def)
qed

lemma execute_all_ok:
  assumes "\<forall>s stmt. execute_raises drv s stmt = None"
  shows "execute_all drv stmts s = (None, s\<lparr>sess_executed := sess_executed s @ stmts\<rparr>)"
  using assms by (induction stmts arbitrary: s) (simp_all add: execute_def)

lemma load_success:
  assumes "connect_raises drv (st (connection_params self)) = None"
    and "\<forall>s stmt. execute_raises drv s stmt = None"
    and "\<forall>s d t. write_pandas_returns drv s d t = Inr (True, n)"
    and "\<forall>s. commit_raises drv s = None"
    and "\<forall>s. close_raises drv s = None"
  shows "load_dataframe_to_snowflake drv st self df =
     (None, st,
      Some \<lparr>sess_params = st (connection_params self),
            sess_executed =
              [''CREATE DATABASE IF NOT EXISTS '' @ cfg_database (config self),
               ''USE DATABASE '' @ cfg_database (config self),
               ''CREATE SCHEMA IF NOT EXISTS '' @ cfg_schema (config self),
               ''USE SCHEMA '' @ cfg_schema (config self),
               snowflake_create_table (cfg_table (config self)) df,
               ''CREATE OR REPLACE TEMPORARY TABLE '' @ cfg_table (config self) @
                 ''_staging LIKE '' @ cfg_table (config self),
               merge_stmt (cfg_table (config self)) (cfg_unique_keys (config self)) (columns df)],
            sess_written = [(cfg_table (config self) @ ''_staging'', df)],
            sess_commits = 1, sess_closes = 1\<rparr>)"
  using assms
  by (simp add: load_dataframe_to_snowflake_def load_body_def Let_def execute_all_ok
      execute_def commit_def close_def connect_def del: execute_all.simps)

lemma load_write_unsuccessful:
  assumes "connect_raises drv (st (connection_params self)) = None"
    and "\<forall>s stmt. execute_raises drv s stmt = None"
    and "\<forall>s d t. write_pandas_returns drv s d t = Inr (False, n)"
    and "\<forall>s. close_raises drv s = None"
  shows "\<exists>s. load_dataframe_to_snowflake drv st self df = (Some staging_write_failed, st, Some s) \<and>
     sess_commits s = 0 \<and> sess_closes s = 1 \<and> length (sess_executed s) = 6"
  using assms
  by (simp add: load_dataframe_to_snowflake_def load_body_def Let_def execute_all_ok
      execute_def commit_def close_def connect_def del: execute_all.simps)

lemma load_statement_raises:
  assumes "connect_raises drv (st (connection_params self)) = None"
    and "\<forall>s stmt. execute_raises drv s stmt = Some err"
    and "\<forall>s. close_raises drv s = None"
  shows "\<exists>s. load_dataframe_to_snowflake drv st self df = (Some err, st, Some s) \<and>
     sess_written s = [] \<and> sess_commits s = 0 \<and> sess_closes s = 1"
  using assms
  by (simp add: load_dataframe_to_snowflake_def load_body_def Let_def
      execute_def commit_def close_def connect_def)

lemma read_success:
  assumes "connect_raises drv
             (dict_set ''schema'' (Some (cfg_schema (config self)))
                (dict_set ''database'' (Some (cfg_database (config self)))
                   (st (connection_params self)))) = None"
    and "\<forall>s stmt. execute_raises drv s stmt = None"
    and "\<forall>s. fetch_returns drv s = Inr rows"
    and "\<forall>s. close_raises drv s = None"
  shows "\<exists>st' s. extract_dataframe_from_snowflake drv st self = (Inr rows, st', Some s) \<and>
     sess_executed s = [''SELECT * FROM '' @ cfg_table (config self) @ '';''] \<and> sess_closes s = 1"
  using assms
  by (simp add: extract_dataframe_from_snowflake_def read_body_def Let_def
      execute_def close_def connect_def)

lemma execute_all_unwritten:
  assumes "\<forall>s stmt. execute_raises drv s stmt = (if sess_written s = [] then None else Some err)"
    and "sess_written s = []"
  shows "execute_all drv stmts s = (None, s\<lparr>sess_executed := sess_executed s @ stmts\<rparr>)"
  using assms by (induction stmts arbitrary: s) (simp_all add: execute_def)

lemma load_merge_raises:
  assumes "connect_raises drv (st (connection_params self)) = None \<and>
       (\<forall>s stmt. execute_raises drv s stmt = (if sess_written s = [] then None else Some err)) \<and>
       (\<forall>s d t. write_pandas_returns drv s d t = Inr (True, n)) \<and>
       (\<forall>s. close_raises drv s = None)"
  shows "\<exists>s. load_dataframe_to_snowflake drv st self df = (Some err, st, Some s) \<and>
           sess_commits s = 0 \<and> sess_closes s = 1"
  using assms
  by (simp add: load_dataframe_to_snowflake_def load_body_def Let_def
      execute_all_unwritten [where err = err] execute_def close_def connect_def
      del: execute_all.simps)

text \<open>
  Claim C6. Both warehouse operations close their session on every exit path. Whenever
  \<^verbatim>\<open>connect\<close> returns a session, the load operation ends with that session closed
  exactly once, whatever the warehouse answers: in particular when everything succeeds
  (one commit), when \<^verbatim>\<open>write_pandas\<close> reports no success (the exception is the
  staging-write \<^verbatim>\<open>RuntimeError\<close>, nothing is committed), and when the statement
  executed after the staging write, the MERGE, raises (its exception leaves the operation,
  nothing is committed). The read operation ends with its session closed exactly once,
  whatever the warehouse answers: when the SELECT raises, its exception leaves the
  operation; when nothing raises, the operation has executed the one statement
  \<^verbatim>\<open>SELECT * FROM <table>;\<close> and returns exactly the rows that
  \<^verbatim>\<open>fetch_pandas_all\<close> produced.
\<close>

theorem warehouse_sessions_closed:
  "(connect_raises drv (st (connection_params self)) = None \<longrightarrow>
      (\<exists>r s. load_dataframe_to_snowflake drv st self df = (r, st, Some s) \<and> sess_closes s = 1))
   \<and> (connect_raises drv (st (connection_params self)) = None \<and>
       (\<forall>s stmt. execute_raises drv s stmt = None) \<and>
       (\<forall>s d t. write_pandas_returns drv s d t = Inr (True, n)) \<and>
       (\<forall>s. commit_raises drv s = None) \<and> (\<forall>s. close_raises drv s = None) \<longrightarrow>
      (\<exists>s. load_dataframe_to_snowflake drv st self df = (None, st, Some s) \<and>
           sess_commits s = 1 \<and> sess_closes s = 1))
   \<and> (connect_raises drv (st (connection_params self)) = None \<and>
       (\<forall>s stmt. execute_raises drv s stmt = None) \<and>
       (\<forall>s d t. write_pandas_returns drv s d t = Inr (False, n)) \<and>
       (\<forall>s. close_raises drv s = None) \<longrightarrow>
      (\<exists>s. load_dataframe_to_snowflake drv st self df = (Some staging_write_failed, st, Some s) \<and>
           sess_commits s = 0 \<and> sess_closes s = 1))
   \<and> (connect_raises drv (st (connection_params self)) = None \<and>
       (\<forall>s stmt. execute_raises drv s stmt = (if sess_written s = [] then None else Some err)) \<and>
       (\<forall>s d t. write_pandas_returns drv s d t = Inr (True, n)) \<and>
       (\<forall>s. close_raises drv s = None) \<longrightarrow>
      (\<exists>s. load_dataframe_to_snowflake drv st self df = (Some err, st, Some s) \<and>
           sess_commits s = 0 \<and> sess_closes s = 1))
   \<and> (connect_raises drv
         (dict_set ''schema'' (Some (cfg_schema (config self)))
            (dict_set ''database'' (Some (cfg_database (config self)))
               (st (connection_params self)))) = None \<longrightarrow>
      (\<exists>r st' s. extract_dataframe_from_snowflake drv st self = (r, st', Some s) \<and>
           sess_closes s = 1) \<and>
      ((\<forall>s stmt. execute_raises drv s stmt = Some err) \<and> (\<forall>s. close_raises drv s = None) \<longrightarrow>
         (\<exists>st' s. extract_dataframe_from_snowflake drv st self = (Inl err, st', Some s) \<and>
              sess_closes s = 1)) \<and>
      ((\<forall>s stmt. execute_raises drv s stmt = None) \<and> (\<forall>s. fetch_returns drv s = Inr rows) \<and>
       (\<forall>s. close_raises drv s = None) \<longrightarrow>
         (\<exists>st' s. extract_dataframe_from_snowflake drv st self = (Inr rows, st', Some s) \<and>
              sess_executed s = [''SELECT * FROM '' @ cfg_table (config self) @ '';''] \<and>
              sess_closes s = 1)))"
proof (intro conjI impI)
  assume "connect_raises drv (st (connection_params self)) = None"
  then show "\<exists>r s. load_dataframe_to_snowflake drv st self df = (r, st, Some s) \<and> sess_closes s = 1"
    by (rule load_closes)
next
  assume "connect_raises drv (st (connection_params self)) = None \<and>
       (\<forall>s stmt. execute_raises drv s stmt = None) \<and>
       (\<forall>s d t. write_pandas_returns drv s d t = Inr (True, n)) \<and>
       (\<forall>s. commit_raises drv s = None) \<and> (\<forall>s. close_raises drv s = None)"
  then show "\<exists>s. load_dataframe_to_snowflake drv st self df = (None, st, Some s) \<and>
           sess_commits s = 1 \<and> sess_closes s = 1"
    using load_success [of drv st self n df] by simp
next
  assume "connect_raises drv (st (connection_params self)) = None \<and>
       (\<forall>s stmt. execute_raises drv s stmt = None) \<and>
       (\<forall>s d t. write_pandas_returns drv s d t = Inr (False, n)) \<and>
       (\<forall>s. close_raises drv s = None)"
  then show "\<exists>s. load_dataframe_to_snowflake drv st self df = (Some staging_write_failed, st, Some s) \<and>
           sess_commits s = 0 \<and> sess_closes s = 1"
    using load_write_unsuccessful [of drv st self n df] by auto
next
  assume "connect_raises drv (st (connection_params self)) = None \<and>
       (\<forall>s stmt. execute_raises drv s stmt = (if sess_written s = [] then None else Some err)) \<and>
       (\<forall>s d t. write_pandas_returns drv s d t = Inr (True, n)) \<and>
       (\<forall>s. close_raises drv s = None)"
  then show "\<exists>s. load_dataframe_to_snowflake drv st self df = (Some err, st, Some s) \<and>
           sess_commits s = 0 \<and> sess_closes s = 1"
    by (rule load_merge_raises)
next
  assume "connect_raises drv
         (dict_set ''schema'' (Some (cfg_schema (config self)))
            (dict_set ''database'' (Some (cfg_database (config self)))
               (st (connection_params self)))) = None"
  then show "\<exists>r st' s. extract_dataframe_from_snowflake drv st self = (r, st', Some s) \<and>
           sess_closes s = 1"
    by (rule read_closes)
next
  assume "connect_raises drv
         (dict_set ''schema'' (Some (cfg_schema (config self)))
            (dict_set ''database'' (Some (cfg_database (config self)))
               (st (connection_params self)))) = None"
    and "(\<forall>s stmt. execute_raises drv s stmt = Some err) \<and> (\<forall>s. close_raises drv s = None)"
  then show "\<exists>st' s. extract_dataframe_from_snowflake drv st self = (Inl err, st', Some s) \<and>
              sess_closes s = 1"
    by (simp add: extract_dataframe_from_snowflake_def read_body_def Let_def
        execute_def close_def connect_def)
next
  assume "connect_raises drv
         (dict_set ''schema'' (Some (cfg_schema (config self)))
            (dict_set ''database'' (Some (cfg_database (config self)))
               (st (connection_params self)))) = None"
    and "(\<forall>s stmt. execute_raises drv s stmt = None) \<and> (\<forall>s. fetch_returns drv s = Inr rows) \<and>
       (\<forall>s. close_raises drv s = None)"
  then show "\<exists>st' s. extract_dataframe_from_snowflake drv st self = (Inr rows, st', Some s) \<and>
              sess_executed s = [''SELECT * FROM '' @ cfg_table (config self) @ '';''] \<and>
              sess_closes s = 1"
    using read_success [of drv self st rows] by simp
qed

text \<open>
  On the fixtures of the tests: a load into a warehouse whose \<^verbatim>\<open>write_pandas\<close> reports
  no success ends with the staging-write error and a closed session, and a read returns
  the table fetched and closes its session.
\<close>

theorem warehouse_sessions_closed_witness:
  "fst (load_dataframe_to_snowflake refusing_warehouse test_store test_connector sample_df) =
     Some staging_write_failed
   \<and> map_option sess_closes
       (snd (snd (load_dataframe_to_snowflake refusing_warehouse test_store test_connector
          sample_df))) = Some 1
   \<and> fst (extract_dataframe_from_snowflake good_warehouse test_store test_connector) =
       Inr sample_df
   \<and> map_option sess_closes
       (snd (snd (extract_dataframe_from_snowflake good_warehouse test_store test_connector))) =
       Some 1"
proof -
  note inst = warehouse_sessions_closed [where drv = refusing_warehouse and st = test_store
      and self = test_connector and df = sample_df and n = 0]
  have "\<exists>s. load_dataframe_to_snowflake refusing_warehouse test_store test_connector sample_df =
          (Some staging_write_failed, test_store, Some s) \<and>
          sess_commits s = 0 \<and> sess_closes s = 1"
    using inst by (simp add: refusing_warehouse_def good_warehouse_def)
  then have load: "fst (load_dataframe_to_snowflake refusing_warehouse test_store test_connector
        sample_df) = Some staging_write_failed"
    "map_option sess_closes
       (snd (snd (load_dataframe_to_snowflake refusing_warehouse test_store test_connector
          sample_df))) = Some 1"
    by auto
  have "\<exists>st' s. extract_dataframe_from_snowflake good_warehouse test_store test_connector =
          (Inr sample_df, st', Some s) \<and>
          sess_executed s = [''SELECT * FROM '' @ cfg_table (config test_connector) @ '';''] \<and>
          sess_closes s = 1"
    using warehouse_sessions_closed [where drv = good_warehouse and st = test_store
      and self = test_connector and rows = sample_df]
    by (simp add: good_warehouse_def)
  then have read: "fst (extract_dataframe_from_snowflake good_warehouse test_store test_connector) =
       Inr sample_df"
    "map_option sess_closes
       (snd (snd (extract_dataframe_from_snowflake good_warehouse test_store test_connector))) =
       Some 1"
    by auto
  from load read show ?thesis
    by simp
qed

subsection \<open>The connection parameters\<close>

lemma map_of_dict_set: "map_of (dict_set k v d) k' = (if k' = k then Some v else map_of d k')"
  by (induction d) auto

lemma dict_set_same: "map_of d k = Some v \<Longrightarrow> dict_set k v d = d"
  by (induction d) (auto split: if_splits)

lemma store_after_read:
  "fst (snd (extract_dataframe_from_snowflake drv st self)) =
     st(connection_params self :=
          dict_set ''schema'' (Some (cfg_schema (config self)))
            (dict_set ''database'' (Some (cfg_database (config self)))
               (st (connection_params self))))"
  by (simp add: extract_dataframe_from_snowflake_def Let_def close_def
      split: option.splits prod.splits)

text \<open>
  Claim C7, as stated, fails: the read operation writes to the connection parameters it
  was constructed with. With the parameters of the tests (user, password, account), the
  dictionary holds five entries after one read: \<^verbatim>\<open>database\<close> and \<^verbatim>\<open>schema\<close> were
  added.
\<close>

theorem read_mutates_connection_params_counterexample:
  "test_store 0 =
     [(''user'', Some ''test_user''), (''password'', Some ''test_password''),
      (''account'', Some ''test_account'')]
   \<and> fst (snd (extract_dataframe_from_snowflake good_warehouse test_store test_connector)) 0 =
     [(''user'', Some ''test_user''), (''password'', Some ''test_password''),
      (''account'', Some ''test_account''), (''database'', Some ''test_database''),
      (''schema'', Some ''test_schema'')]
   \<and> fst (snd (extract_dataframe_from_snowflake good_warehouse test_store test_connector)) 0 \<noteq>
     test_store 0"
  by (simp add: store_after_read test_store_def test_params_def test_connector_def
      test_config_def SnowflakeConnector_init_def)

text \<open>
  Claim C7, amended. The read operation updates in place the dictionary of connection
  parameters that its connector refers to (the one of the run context, when the connector
  was constructed with it): afterwards \<^verbatim>\<open>database\<close> and \<^verbatim>\<open>schema\<close> map to the
  configured values, every other key has the value it had, and every other dictionary of
  the store is unchanged. This holds whatever the warehouse answers, also when connecting
  raises. A second read leaves the dictionary as the first left it. The load operation
  leaves the store unchanged.
\<close>

theorem read_updates_connection_params:
  assumes "extract_dataframe_from_snowflake drv st self = (r, st', s)"
  shows "map_of (st' (connection_params self)) ''database'' = Some (Some (cfg_database (config self)))
       \<and> map_of (st' (connection_params self)) ''schema'' = Some (Some (cfg_schema (config self)))
       \<and> (\<forall>k. k \<noteq> ''database'' \<and> k \<noteq> ''schema'' \<longrightarrow>
            map_of (st' (connection_params self)) k = map_of (st (connection_params self)) k)
       \<and> (\<forall>a. a \<noteq> connection_params self \<longrightarrow> st' a = st a)
       \<and> fst (snd (extract_dataframe_from_snowflake drv' st' self)) = st'
       \<and> fst (snd (load_dataframe_to_snowflake drv' st self df)) = st"
proof -
  let ?a = "connection_params self"
  let ?d = "Some (cfg_database (config self))"
  let ?s = "Some (cfg_schema (config self))"
  from assms store_after_read [of drv st self]
  have st': "st' = st(?a := dict_set ''schema'' ?s (dict_set ''database'' ?d (st ?a)))"
    by simp
  have db: "map_of (st' ?a) ''database'' = Some ?d"
    and sc: "map_of (st' ?a) ''schema'' = Some ?s"
    by (simp_all add: st' map_of_dict_set)
  have others: "\<forall>k. k \<noteq> ''database'' \<and> k \<noteq> ''schema'' \<longrightarrow> map_of (st' ?a) k = map_of (st ?a) k"
    by (simp add: st' map_of_dict_set)
  have frame: "\<forall>a. a \<noteq> ?a \<longrightarrow> st' a = st a"
    by (simp add: st')
  have "dict_set ''database'' ?d (st' ?a) = st' ?a"
    using db by (rule dict_set_same)
  then have "dict_set ''schema'' ?s (dict_set ''database'' ?d (st' ?a)) = st' ?a"
    using sc by (simp add: dict_set_same)
  then have again: "fst (snd (extract_dataframe_from_snowflake drv' st' self)) = st'"
    by (simp add: store_after_read)
  have load: "fst (snd (load_dataframe_to_snowflake drv' st self df)) = st"
    by (simp add: load_dataframe_to_snowflake_def Let_def split: option.splits prod.splits)
  from db sc others frame again load show ?thesis
    by blast
qed

theorem read_updates_connection_params_witness:
  "map_of (fst (snd (extract_dataframe_from_snowflake good_warehouse test_store test_connector)) 0)
      ''database'' = Some (Some ''test_database'')
   \<and> map_of (fst (snd (extract_dataframe_from_snowflake good_warehouse test_store test_connector)) 0)
      ''user'' = Some (Some ''test_user'')
   \<and> fst (snd (extract_dataframe_from_snowflake good_warehouse
        (fst (snd (extract_dataframe_from_snowflake good_warehouse test_store test_connector)))
        test_connector)) =
      fst (snd (extract_dataframe_from_snowflake good_warehouse test_store test_connector))
   \<and> fst (snd (load_dataframe_to_snowflake good_warehouse test_store test_connector sample_df)) =
      test_store"
proof -
  obtain r st' s where
    e: "extract_dataframe_from_snowflake good_warehouse test_store test_connector = (r, st', s)"
    by (cases "extract_dataframe_from_snowflake good_warehouse test_store test_connector")
  have c: "connection_params test_connector = 0"
    "cfg_database (config test_connector) = ''test_database''"
    by (simp_all add: test_connector_def SnowflakeConnector_init_def test_config_def)
  have u: "map_of (test_store 0) ''user'' = Some (Some ''test_user'')"
    by (simp add: test_store_def test_params_def)
  from read_updates_connection_params [OF e, of good_warehouse sample_df] e c u show ?thesis
    by simp
qed

subsection \<open>The transformation of a two-column table\<close>








end
